theory Spec2Isabelle
  imports Main "HOL-Library.AList"
begin

section \<open>JavaScript values, errors and strings\<close>

text \<open>
  The values that flow through the builders and the models. Numbers are the integer-valued
  JavaScript numbers (employee counts, salaries, ids); an object is the list of its own
  enumerable properties in iteration order, which is the order of \<^verbatim>\<open>Object.keys\<close> and
  of \<^verbatim>\<open>Object.values\<close>.
\<close>

datatype jsval =
    JUndefined
  | JNull
  | JBool bool
  | JNum int
  | JStr string
  | JArr "jsval list"
  | JObj "(string \<times> jsval) list"

type_synonym row = "(string \<times> jsval) list"

text \<open>
  The error classes of \<^verbatim>\<open>expressError\<close> that the models throw, the \<^verbatim>\<open>TypeError\<close> the
  runtime raises on a property read of \<^verbatim>\<open>undefined\<close>, and an error of the storage client,
  which the models do not catch.
\<close>

datatype error =
    BadRequestError string
  | NotFoundError string
  | TypeError string
  | DbError string

text \<open>Decimal rendering of a non-negative integer, as a template literal does it.\<close>

definition digit_char :: "nat \<Rightarrow> char" where
  "digit_char d = ''0123456789'' ! d"

fun decimal :: "nat \<Rightarrow> string" where
  "decimal n =
     (if 10 \<le> n then decimal (n div 10) @ [digit_char (n mod 10)]
      else [digit_char n])"

declare decimal.simps [simp del]

text \<open>\<^verbatim>\<open>Array.prototype.join\<close> on an array of strings.\<close>

fun js_join :: "string \<Rightarrow> string list \<Rightarrow> string" where
  "js_join sep [] = []"
| "js_join sep [x] = x"
| "js_join sep (x # y # ys) = x @ sep @ js_join sep (y # ys)"

section \<open>helpers/sql: sqlForPartialUpdate\<close>

text \<open>
  \<^verbatim>\<open>dataToUpdate\<close> is the object's entries in iteration order. \<^verbatim>\<open>jsToSql\<close> is an
  ordinary object, given by its own properties, which are strings. The read
  \<^verbatim>\<open>jsToSql[colName]\<close> has no own-property test: when the object has no own property of
  that name it finds the member that every ordinary object inherits from
  \<^verbatim>\<open>Object.prototype\<close>, if there is one. Those members are functions, and
  \<^verbatim>\<open>__proto__\<close> is the prototype object itself; all of them are truthy.
  \<open>Object_prototype\<close> gives, for each inherited name, the text that the template literal
  renders for the member (as Node.js prints a built-in function and a plain object).
  The operator \<^verbatim>\<open>||\<close> takes its right operand when the left one is falsy:
  \<^verbatim>\<open>undefined\<close> or the empty string. The field \<open>vals\<close> is the property \<^verbatim>\<open>values\<close> of the
  result.
\<close>

definition Object_prototype :: "string \<rightharpoonup> string" where
  "Object_prototype k =
     (if k = ''constructor'' then Some ''function Object() { [native code] }''
      else if k = ''__proto__'' then Some ''[object Object]''
      else if k \<in> set [''__defineGetter__'', ''__defineSetter__'', ''hasOwnProperty'',
                         ''__lookupGetter__'', ''__lookupSetter__'', ''isPrototypeOf'',
                         ''propertyIsEnumerable'', ''toString'', ''valueOf'', ''toLocaleString'']
      then Some (''function '' @ k @ ''() { [native code] }'')
      else None)"

definition js_member :: "(string \<rightharpoonup> string) \<Rightarrow> string \<Rightarrow> string option" where
  "js_member obj k = (case obj k of Some v \<Rightarrow> Some v | None \<Rightarrow> Object_prototype k)"

record update_clause =
  setCols :: string
  vals :: "jsval list"

definition js_or :: "string option \<Rightarrow> string \<Rightarrow> string" where
  "js_or l r = (case l of None \<Rightarrow> r | Some s \<Rightarrow> if s = [] then r else s)"

definition sqlForPartialUpdate_cols :: "string list \<Rightarrow> (string \<rightharpoonup> string) \<Rightarrow> string list" where
  "sqlForPartialUpdate_cols keys jsToSql =
     map (\<lambda>(idx, colName).
            ''\"'' @ js_or (js_member jsToSql colName) colName @ ''\"=$'' @ decimal (idx + 1))
         (enumerate 0 keys)"

definition sqlForPartialUpdate ::
  "(string \<times> jsval) list \<Rightarrow> (string \<rightharpoonup> string) \<Rightarrow> error + update_clause" where
  "sqlForPartialUpdate dataToUpdate jsToSql =
     (let keys = map fst dataToUpdate in
      if length keys = 0 then Inl (BadRequestError ''No data'')
      else
        let cols = sqlForPartialUpdate_cols keys jsToSql in
        Inr \<lparr>setCols = js_join '', '' cols, vals = map snd dataToUpdate\<rparr>)"

section \<open>The storage client\<close>

text \<open>
  \<^verbatim>\<open>db.query(sql, params)\<close> belongs to the storage client: it is a parameter \<open>q\<close> of the
  models, a function of the statement, its parameter list and the stored data that gives
  the rows (or a storage error) and the data afterwards. The \<open>trace\<close> records every round
  trip. A statement is written with each run of white space of its template literal as one
  space; the interpolated parts are verbatim, and each template is a function of them.
\<close>

type_synonym 'db query_fn = "string \<Rightarrow> jsval list \<Rightarrow> 'db \<Rightarrow> (error + row list) \<times> 'db"

record 'db world =
  store :: 'db
  trace :: "(string \<times> jsval list) list"

definition db_query ::
  "'db query_fn \<Rightarrow> string \<Rightarrow> jsval list \<Rightarrow> 'db world \<Rightarrow> (error + row list) \<times> 'db world" where
  "db_query q sql params w =
     (case q sql params (store w) of
        (res, st) \<Rightarrow> (res, \<lparr>store = st, trace = trace w @ [(sql, params)]\<rparr>))"

text \<open>A property read of a row, and the rendering of an integer in a template literal.\<close>

definition js_get :: "row \<Rightarrow> string \<Rightarrow> jsval" where
  "js_get r k = (case map_of r k of None \<Rightarrow> JUndefined | Some v \<Rightarrow> v)"

definition js_String :: "int \<Rightarrow> string" where
  "js_String i =
     (if 0 \<le> i then decimal (nat i) else CHR ''-'' # decimal (nat (- i)))"

text \<open>\<^verbatim>\<open>s.slice(0, -5)\<close>: all but the last five characters, the empty string for a shorter one.\<close>

definition js_slice_0_neg5 :: "string \<Rightarrow> string" where
  "js_slice_0_neg5 s = take (length s - 5) s"

section \<open>models/company\<close>

text \<open>
  The filters of \<^verbatim>\<open>findAll\<close>, typed as documented; \<open>None\<close> is a filter that was not
  supplied. A string is truthy when it is not empty, a number when it is not zero.
\<close>

record company_filters =
  name :: "string option"
  minEmployees :: "int option"
  maxEmployees :: "int option"

definition truthy_str :: "string option \<Rightarrow> bool" where
  "truthy_str x = (case x of None \<Rightarrow> False | Some s \<Rightarrow> s \<noteq> [])"

definition truthy_num :: "int option \<Rightarrow> bool" where
  "truthy_num x = (case x of None \<Rightarrow> False | Some n \<Rightarrow> n \<noteq> 0)"

definition truthy_bool :: "bool option \<Rightarrow> bool" where
  "truthy_bool x = (case x of None \<Rightarrow> False | Some b \<Rightarrow> b)"

definition js_gt :: "int option \<Rightarrow> int option \<Rightarrow> bool" where
  "js_gt x y = (case (x, y) of (Some a, Some b) \<Rightarrow> a > b | _ \<Rightarrow> False)"

text \<open>The part of \<^verbatim>\<open>Company.findAll\<close> before the query: the check, then the clause and its values.\<close>

definition Company_findAll_filter :: "company_filters \<Rightarrow> error + (string \<times> jsval list)" where
  "Company_findAll_filter f =
     (if truthy_num (minEmployees f) \<and> truthy_num (maxEmployees f)
         \<and> js_gt (minEmployees f) (maxEmployees f)
      then Inl (BadRequestError
        ''The minimum number of employees cannot be greater than the maximum number of employees'')
      else
        let filterClause = [];
            values = [];
            (filterClause, values) =
              (if truthy_str (name f) then
                 let values = values @ [JStr (''%'' @ the (name f) @ ''%'')] in
                 (filterClause @ ''LOWER(name) LIKE LOWER($'' @ decimal (length values)
                    @ '') AND '', values)
               else (filterClause, values));
            (filterClause, values) =
              (if truthy_num (minEmployees f) then
                 let values = values @ [JNum (the (minEmployees f))] in
                 (filterClause @ ''num_employees >= $'' @ decimal (length values)
                    @ '' AND '', values)
               else (filterClause, values));
            (filterClause, values) =
              (if truthy_num (maxEmployees f) then
                 let values = values @ [JNum (the (maxEmployees f))] in
                 (filterClause @ ''num_employees <= $'' @ decimal (length values)
                    @ '' AND '', values)
               else (filterClause, values));
            filterClause =
              (if length filterClause > 0 then ''WHERE '' @ js_slice_0_neg5 filterClause
               else filterClause)
        in Inr (filterClause, values))"

definition Company_findAll_sql :: "string \<Rightarrow> string" where
  "Company_findAll_sql filterClause =
     ''SELECT handle, name, description, num_employees AS \"numEmployees\", ''
       @ ''logo_url AS \"logoUrl\" FROM companies '' @ filterClause @ '' ORDER BY name''"

definition Company_findAll ::
  "'db query_fn \<Rightarrow> company_filters \<Rightarrow> 'db world \<Rightarrow> (error + row list) \<times> 'db world" where
  "Company_findAll q f w =
     (case Company_findAll_filter f of
        Inl e \<Rightarrow> (Inl e, w)
      | Inr (filterClause, values) \<Rightarrow> db_query q (Company_findAll_sql filterClause) values w)"

definition Company_select_sql :: string where
  "Company_select_sql =
     ''SELECT handle, name, description, num_employees AS \"numEmployees\", ''
       @ ''logo_url AS \"logoUrl\" FROM companies WHERE handle = $1''"

definition Company_jobs_sql :: string where
  "Company_jobs_sql = ''SELECT id, title, salary, equity FROM jobs WHERE company_handle = $1''"

definition Company_get ::
  "'db query_fn \<Rightarrow> string \<Rightarrow> 'db world \<Rightarrow> (error + row) \<times> 'db world" where
  "Company_get q handle w =
     (case db_query q Company_select_sql [JStr handle] w of
        (Inl e, w1) \<Rightarrow> (Inl e, w1)
      | (Inr companyRes, w1) \<Rightarrow>
          (case companyRes of
             [] \<Rightarrow> (Inl (NotFoundError (''No company: '' @ handle)), w1)
           | company # _ \<Rightarrow>
               (case db_query q Company_jobs_sql [JStr handle] w1 of
                  (Inl e, w2) \<Rightarrow> (Inl e, w2)
                | (Inr jobsRes, w2) \<Rightarrow>
                    (Inr (AList.update ''jobs'' (JArr (map JObj jobsRes)) company), w2))))"

definition Company_update_sql :: "string \<Rightarrow> string \<Rightarrow> string" where
  "Company_update_sql setCols' handleVarIdx =
     ''UPDATE companies SET '' @ setCols' @ '' WHERE handle = '' @ handleVarIdx
       @ '' RETURNING handle, name, description, ''
       @ ''num_employees AS \"numEmployees\", logo_url AS \"logoUrl\"''"

definition Company_update ::
  "'db query_fn \<Rightarrow> string \<Rightarrow> (string \<times> jsval) list \<Rightarrow> 'db world
     \<Rightarrow> (error + row) \<times> 'db world" where
  "Company_update q handle data w =
     (case sqlForPartialUpdate data
             [''numEmployees'' \<mapsto> ''num_employees'', ''logoUrl'' \<mapsto> ''logo_url''] of
        Inl e \<Rightarrow> (Inl e, w)
      | Inr r \<Rightarrow>
          let handleVarIdx = ''$'' @ decimal (length (vals r) + 1);
              querySql = Company_update_sql (setCols r) handleVarIdx
          in (case db_query q querySql (vals r @ [JStr handle]) w of
                (Inl e, w1) \<Rightarrow> (Inl e, w1)
              | (Inr rows, w1) \<Rightarrow>
                  (case rows of
                     [] \<Rightarrow> (Inl (NotFoundError (''No company: '' @ handle)), w1)
                   | company # _ \<Rightarrow> (Inr company, w1))))"

section \<open>models/job\<close>

record job_filters =
  title :: "string option"
  minSalary :: "int option"
  hasEquity :: "bool option"

text \<open>The part of \<^verbatim>\<open>Job.findAll\<close> before the query. It has no check and cannot fail.\<close>

definition Job_findAll_filter :: "job_filters \<Rightarrow> string \<times> jsval list" where
  "Job_findAll_filter f =
     (let filterClause = [];
          values = [];
          (filterClause, values) =
            (if truthy_str (title f) then
               let values = values @ [JStr (''%'' @ the (title f) @ ''%'')] in
               (filterClause @ ''LOWER(title) LIKE LOWER($'' @ decimal (length values)
                  @ '') AND '', values)
             else (filterClause, values));
          (filterClause, values) =
            (if truthy_num (minSalary f) then
               let values = values @ [JNum (the (minSalary f))] in
               (filterClause @ ''salary >= $'' @ decimal (length values)
                  @ '' AND '', values)
             else (filterClause, values));
          filterClause =
            (if truthy_bool (hasEquity f) then filterClause @ ''equity > 0 AND ''
             else filterClause);
          filterClause =
            (if length filterClause > 0 then ''WHERE '' @ js_slice_0_neg5 filterClause
             else filterClause)
      in (filterClause, values))"

definition Job_findAll_sql :: "string \<Rightarrow> string" where
  "Job_findAll_sql filterClause =
     ''SELECT title, salary, equity, company_handle AS \"companyHandle\" FROM jobs ''
       @ filterClause @ '' ORDER BY title''"

definition Job_findAll ::
  "'db query_fn \<Rightarrow> job_filters \<Rightarrow> 'db world \<Rightarrow> (error + row list) \<times> 'db world" where
  "Job_findAll q f w =
     (case Job_findAll_filter f of
        (filterClause, values) \<Rightarrow> db_query q (Job_findAll_sql filterClause) values w)"

definition Job_select_sql :: string where
  "Job_select_sql =
     ''SELECT id, title, salary, equity, company_handle AS \"companyHandle\" ''
       @ ''FROM jobs WHERE id = $1''"

text \<open>
  \<^verbatim>\<open>companyRes.rows[0].handle\<close> reads a property of \<^verbatim>\<open>undefined\<close> when the second
  query gives no row: the runtime throws a \<^verbatim>\<open>TypeError\<close>.
\<close>

definition Job_get ::
  "'db query_fn \<Rightarrow> int \<Rightarrow> 'db world \<Rightarrow> (error + row) \<times> 'db world" where
  "Job_get q id' w =
     (case db_query q Job_select_sql [JNum id'] w of
        (Inl e, w1) \<Rightarrow> (Inl e, w1)
      | (Inr jobRes, w1) \<Rightarrow>
          (case jobRes of
             [] \<Rightarrow> (Inl (NotFoundError (''No job: '' @ js_String id')), w1)
           | job # _ \<Rightarrow>
               (case db_query q Company_select_sql [js_get job ''companyHandle''] w1 of
                  (Inl e, w2) \<Rightarrow> (Inl e, w2)
                | (Inr companyRes, w2) \<Rightarrow>
                    (case companyRes of
                       [] \<Rightarrow> (Inl (TypeError ''Cannot read properties of undefined''), w2)
                     | c # _ \<Rightarrow>
                         (Inr (AList.update ''companyHandle'' (js_get c ''handle'') job), w2)))))"

definition Job_update_sql :: "string \<Rightarrow> string \<Rightarrow> string" where
  "Job_update_sql setCols' idVarIdx =
     ''UPDATE jobs SET '' @ setCols' @ '' WHERE id = '' @ idVarIdx
       @ '' RETURNING id, title, salary, equity, company_handle AS \"companyHandle\"''"

definition Job_update ::
  "'db query_fn \<Rightarrow> int \<Rightarrow> (string \<times> jsval) list \<Rightarrow> 'db world
     \<Rightarrow> (error + row) \<times> 'db world" where
  "Job_update q id' data w =
     (case sqlForPartialUpdate data Map.empty of
        Inl e \<Rightarrow> (Inl e, w)
      | Inr r \<Rightarrow>
          let idVarIdx = ''$'' @ decimal (length (vals r) + 1);
              querySql = Job_update_sql (setCols r) idVarIdx
          in (case db_query q querySql (vals r @ [JNum id']) w of
                (Inl e, w1) \<Rightarrow> (Inl e, w1)
              | (Inr rows, w1) \<Rightarrow>
                  (case rows of
                     [] \<Rightarrow> (Inl (NotFoundError (''No job: '' @ js_String id')), w1)
                   | job # _ \<Rightarrow> (Inr job, w1))))"

section \<open>The filter assembler as the specification words it\<close>

text \<open>
  The specification describes one assembler over a filter spec with four optional parts,
  handled in the order text match, lower bound, upper bound, presence flag. A predicate is
  either parameterized (the text before its placeholder, its value, the text after) or a
  literal. Rendering keeps one running placeholder counter, which only a parameterized
  predicate advances. A part is active when its value is truthy.
\<close>

datatype predicate = Param string jsval string | Literal string

record filter_spec =
  textMatch :: "string option"
  minBound :: "int option"
  maxBound :: "int option"
  presenceFlag :: "bool option"

record filter_columns =
  textColumn :: string
  boundColumn :: string
  flagColumn :: string

definition spec_predicates :: "filter_columns \<Rightarrow> filter_spec \<Rightarrow> predicate list" where
  "spec_predicates c s =
     (if truthy_str (textMatch s)
      then [Param (''LOWER('' @ textColumn c @ '') LIKE LOWER('')
                  (JStr (''%'' @ the (textMatch s) @ ''%'')) '')'']
      else [])
     @ (if truthy_num (minBound s)
        then [Param (boundColumn c @ '' >= '') (JNum (the (minBound s))) []] else [])
     @ (if truthy_num (maxBound s)
        then [Param (boundColumn c @ '' <= '') (JNum (the (maxBound s))) []] else [])
     @ (if truthy_bool (presenceFlag s) then [Literal (flagColumn c @ '' > 0'')] else [])"

fun spec_fragments :: "nat \<Rightarrow> predicate list \<Rightarrow> string list" where
  "spec_fragments n [] = []"
| "spec_fragments n (Param pre v post # ps) =
     (pre @ ''$'' @ decimal (Suc n) @ post) # spec_fragments (Suc n) ps"
| "spec_fragments n (Literal s # ps) = s # spec_fragments n ps"

fun spec_values :: "predicate list \<Rightarrow> jsval list" where
  "spec_values [] = []"
| "spec_values (Param pre v post # ps) = v # spec_values ps"
| "spec_values (Literal s # ps) = spec_values ps"

definition spec_where :: "string list \<Rightarrow> string" where
  "spec_where frags = (if frags = [] then [] else ''WHERE '' @ js_join '' AND '' frags)"

definition spec_filter_clause :: "filter_columns \<Rightarrow> filter_spec \<Rightarrow> string \<times> jsval list" where
  "spec_filter_clause c s =
     (spec_where (spec_fragments 0 (spec_predicates c s)), spec_values (spec_predicates c s))"

text \<open>The two assemblers of the code as instances: their columns and their filter specs.\<close>

definition company_columns :: filter_columns where
  "company_columns =
     \<lparr>textColumn = ''name'', boundColumn = ''num_employees'', flagColumn = []\<rparr>"

definition company_spec :: "company_filters \<Rightarrow> filter_spec" where
  "company_spec f =
     \<lparr>textMatch = name f, minBound = minEmployees f, maxBound = maxEmployees f,
      presenceFlag = None\<rparr>"

definition job_columns :: filter_columns where
  "job_columns = \<lparr>textColumn = ''title'', boundColumn = ''salary'', flagColumn = ''equity''\<rparr>"

definition job_spec :: "job_filters \<Rightarrow> filter_spec" where
  "job_spec f =
     \<lparr>textMatch = title f, minBound = minSalary f, maxBound = None,
      presenceFlag = hasEquity f\<rparr>"

section \<open>A small store for concrete runs\<close>

text \<open>
  The stored data is a list of company rows and a list of job rows, in the shape the
  statements return them. \<open>example_q\<close> answers the three lookups of the \<^verbatim>\<open>get\<close>
  operations; \<open>answer_with\<close> gives the same rows to every statement.
\<close>

definition example_q :: "(row list \<times> row list) query_fn" where
  "example_q sql params st =
     (if sql = Company_select_sql
      then (Inr (filter (\<lambda>r. [js_get r ''handle''] = params) (fst st)), st)
      else if sql = Job_select_sql
      then (Inr (filter (\<lambda>r. [js_get r ''id''] = params) (snd st)), st)
      else if sql = Company_jobs_sql
      then (Inr (map (filter (\<lambda>kv. fst kv \<noteq> ''companyHandle''))
                   (filter (\<lambda>r. [js_get r ''companyHandle''] = params) (snd st))), st)
      else (Inr [], st))"

definition answer_with :: "row list \<Rightarrow> unit query_fn" where
  "answer_with rows sql params st = (Inr rows, st)"

definition company_c1 :: row where
  "company_c1 = [(''handle'', JStr ''c1''), (''name'', JStr ''C1''),
     (''description'', JStr ''Desc1''), (''numEmployees'', JNum 1),
     (''logoUrl'', JStr ''http://c1.img'')]"

definition job_j0 :: "string \<Rightarrow> row" where
  "job_j0 h = [(''id'', JNum 1), (''title'', JStr ''j0''), (''salary'', JNum 1),
     (''equity'', JStr ''0''), (''companyHandle'', JStr h)]"

definition has_nested_collection :: "row \<Rightarrow> bool" where
  "has_nested_collection r = list_ex (\<lambda>kv. case snd kv of JArr _ \<Rightarrow> True | _ \<Rightarrow> False) r"

section \<open>Decimal rendering\<close>

lemma digit_char_inj: "a < 10 \<Longrightarrow> b < 10 \<Longrightarrow> digit_char a = digit_char b \<Longrightarrow> a = b"
  unfolding digit_char_def
  by (simp add: less_Suc_eq numeral_nat nth_Cons') (elim disjE; simp)

lemma decimal_nonempty: "decimal n \<noteq> []"
  by (subst decimal.simps) simp

lemma decimal_inj: "decimal n = decimal m \<Longrightarrow> n = m"
proof (induction n arbitrary: m rule: decimal.induct)
  case (1 n)
  show ?case
  proof (cases "10 \<le> n")
    case small_n: False
    show ?thesis
    proof (cases "10 \<le> m")
      case False
      with "1.prems" small_n have "digit_char n = digit_char m"
        by (simp add: decimal.simps[of n] decimal.simps[of m])
      moreover from small_n False have "n < 10" "m < 10" by simp_all
      ultimately show ?thesis by (auto dest: digit_char_inj)
    next
      case True
      with "1.prems" small_n show ?thesis
        using decimal_nonempty[of "m div 10"]
        by (simp add: decimal.simps[of n] decimal.simps[of m])
    qed
  next
    case big_n: True
    show ?thesis
    proof (cases "10 \<le> m")
      case False
      with "1.prems" big_n show ?thesis
        using decimal_nonempty[of "n div 10"]
        by (simp add: decimal.simps[of n] decimal.simps[of m])
    next
      case True
      with "1.prems" big_n have init_eq: "decimal (n div 10) = decimal (m div 10)"
        and last_eq: "digit_char (n mod 10) = digit_char (m mod 10)"
        by (simp_all add: decimal.simps[of n] decimal.simps[of m])
      from "1.IH"[OF big_n init_eq] have "n div 10 = m div 10" .
      moreover from last_eq have "n mod 10 = m mod 10" by (intro digit_char_inj) simp_all
      ultimately show ?thesis by (metis div_mult_mod_eq)
    qed
  qed
qed

lemma decimal_1: "decimal (Suc 0) = ''1''"
  by (simp add: decimal.simps digit_char_def)

lemma decimal_2: "decimal (Suc (Suc 0)) = ''2''"
  by (simp add: decimal.simps digit_char_def)

lemma decimal_3: "decimal (Suc (Suc (Suc 0))) = ''3''"
  by (simp add: decimal.simps digit_char_def)

section \<open>Properties of sqlForPartialUpdate\<close>

lemma length_cols: "length (sqlForPartialUpdate_cols keys jsToSql) = length keys"
  by (simp add: sqlForPartialUpdate_cols_def)

lemma nth_cols:
  "i < length keys \<Longrightarrow>
   sqlForPartialUpdate_cols keys jsToSql ! i =
     ''\"'' @ js_or (js_member jsToSql (keys ! i)) (keys ! i) @ ''\"=$'' @ decimal (i + 1)"
  by (simp add: sqlForPartialUpdate_cols_def nth_enumerate_eq)

lemma sqlForPartialUpdate_nonempty:
  "dataToUpdate \<noteq> [] \<Longrightarrow>
   sqlForPartialUpdate dataToUpdate jsToSql =
     Inr \<lparr>setCols = js_join '', '' (sqlForPartialUpdate_cols (map fst dataToUpdate) jsToSql),
          vals = map snd dataToUpdate\<rparr>"
  by (simp add: sqlForPartialUpdate_def)

lemma sqlForPartialUpdate_empty:
  "sqlForPartialUpdate [] jsToSql = Inl (BadRequestError ''No data'')"
  by (simp add: sqlForPartialUpdate_def)

text \<open>
  C1. For a non-empty \<^verbatim>\<open>dataToUpdate\<close> and any \<^verbatim>\<open>jsToSql\<close>, the result is the clause
  joined from one fragment per key and the list of the object's values in the same order:
  there are as many fragments and as many values as keys, the fragment of the key in
  position \<open>i + 1\<close> is its quoted column followed by the placeholder \<open>$(i + 1)\<close>, the value
  at index \<open>i\<close> is that key's value, and different positions have different placeholders.
\<close>

theorem sqlForPartialUpdate_alignment:
  assumes "dataToUpdate \<noteq> []"
  shows "sqlForPartialUpdate dataToUpdate jsToSql =
           Inr \<lparr>setCols = js_join '', '' (sqlForPartialUpdate_cols (map fst dataToUpdate) jsToSql),
                vals = map snd dataToUpdate\<rparr>
       \<and> length (sqlForPartialUpdate_cols (map fst dataToUpdate) jsToSql) = length dataToUpdate
       \<and> length (map snd dataToUpdate) = length dataToUpdate
       \<and> (\<forall>i < length dataToUpdate.
             sqlForPartialUpdate_cols (map fst dataToUpdate) jsToSql ! i =
                ''\"'' @ js_or (js_member jsToSql (fst (dataToUpdate ! i))) (fst (dataToUpdate ! i))
                  @ ''\"=$'' @ decimal (i + 1)
           \<and> map snd dataToUpdate ! i = snd (dataToUpdate ! i))
       \<and> (\<forall>i j. decimal (i + 1) = decimal (j + 1) \<longrightarrow> i = j)"
proof -
  have "\<forall>i j. decimal (i + 1) = decimal (j + 1) \<longrightarrow> i = j"
    by (auto dest: decimal_inj)
  moreover have "\<forall>i < length dataToUpdate.
             sqlForPartialUpdate_cols (map fst dataToUpdate) jsToSql ! i =
                ''\"'' @ js_or (js_member jsToSql (fst (dataToUpdate ! i))) (fst (dataToUpdate ! i))
                  @ ''\"=$'' @ decimal (i + 1)
           \<and> map snd dataToUpdate ! i = snd (dataToUpdate ! i)"
    by (simp add: nth_cols)
  ultimately show ?thesis
    using assms by (simp add: sqlForPartialUpdate_nonempty length_cols)
qed

theorem sqlForPartialUpdate_alignment_witness:
  "sqlForPartialUpdate [(''name'', JStr ''Test name''), (''numEmployees'', JNum 100)]
       [''numEmployees'' \<mapsto> ''num_employees'']
     = Inr \<lparr>setCols = ''\"name\"=$1, \"num_employees\"=$2'',
            vals = [JStr ''Test name'', JNum 100]\<rparr>"
  using sqlForPartialUpdate_alignment
    [of "[(''name'', JStr ''Test name''), (''numEmployees'', JNum 100)]"
        "[''numEmployees'' \<mapsto> ''num_employees'']"]
  by (simp add: sqlForPartialUpdate_cols_def js_or_def js_member_def Object_prototype_def
        enumerate_eq_zip decimal.simps digit_char_def)

text \<open>
  C2. With no key, \<^verbatim>\<open>sqlForPartialUpdate\<close> throws \<^verbatim>\<open>BadRequestError("No data")\<close>,
  whatever \<^verbatim>\<open>jsToSql\<close> is; it throws if and only if there is no key.
\<close>

theorem sqlForPartialUpdate_no_data:
  "sqlForPartialUpdate [] jsToSql = Inl (BadRequestError ''No data'')
   \<and> ((\<exists>e. sqlForPartialUpdate dataToUpdate jsToSql = Inl e) \<longleftrightarrow> dataToUpdate = [])"
  by (cases "dataToUpdate = []")
     (simp_all add: sqlForPartialUpdate_empty sqlForPartialUpdate_nonempty)

theorem sqlForPartialUpdate_no_data_witness:
  "sqlForPartialUpdate [] [''numEmployees'' \<mapsto> ''num_employees'']
     = Inl (BadRequestError ''No data'')
   \<and> \<not> (\<exists>e. sqlForPartialUpdate [(''name'', JStr ''n'')]
               [''numEmployees'' \<mapsto> ''num_employees''] = Inl e)"
  using sqlForPartialUpdate_no_data
    [of "[''numEmployees'' \<mapsto> ''num_employees'']" "[(''name'', JStr ''n'')]"]
  by simp

text \<open>
  C3. The claim does not hold of the code. The key \<^verbatim>\<open>constructor\<close> is absent from the
  empty map \<^verbatim>\<open>{}\<close>, so its column should be the key itself; the read
  \<^verbatim>\<open>jsToSql[colName]\<close> finds the inherited \<^verbatim>\<open>Object.prototype.constructor\<close>, which is
  truthy, and the emitted column is the text of that function. \<^verbatim>\<open>Job.update\<close>, which
  passes \<^verbatim>\<open>{}\<close>, sends such a column to the storage for the field \<^verbatim>\<open>toString\<close>.
\<close>

theorem column_resolution_inherited_member:
  "Map.empty ''constructor'' = (None :: string option)
   \<and> sqlForPartialUpdate [(''constructor'', JNum 1)] Map.empty
       = Inr \<lparr>setCols = ''\"function Object() { [native code] }\"=$1'', vals = [JNum 1]\<rparr>
   \<and> trace (snd (Job_update (answer_with []) 1 [(''toString'', JStr ''x'')]
                     \<lparr>store = (), trace = []\<rparr>))
       = [(''UPDATE jobs SET \"function toString() { [native code] }\"=$1 WHERE id = $2''
             @ '' RETURNING id, title, salary, equity, company_handle AS \"companyHandle\"'',
           [JStr ''x'', JNum 1])]"
  by (simp add: Job_update_def Job_update_sql_def db_query_def answer_with_def
        sqlForPartialUpdate_def sqlForPartialUpdate_cols_def js_or_def js_member_def
        Object_prototype_def enumerate_eq_zip decimal_1 decimal_2)

section \<open>Properties of the filter assemblers\<close>

lemma truthy_None [simp]: "\<not> truthy_str None" "\<not> truthy_num None" "\<not> truthy_bool None"
  by (simp_all add: truthy_str_def truthy_num_def truthy_bool_def)

lemma truthy_Some [simp]:
  "truthy_str (Some s) \<longleftrightarrow> s \<noteq> []" "truthy_num (Some n) \<longleftrightarrow> n \<noteq> 0" "truthy_bool (Some b) \<longleftrightarrow> b"
  by (simp_all add: truthy_str_def truthy_num_def truthy_bool_def)

lemma Company_findAll_filter_error:
  "truthy_num (minEmployees f) \<and> truthy_num (maxEmployees f)
     \<and> js_gt (minEmployees f) (maxEmployees f) \<Longrightarrow>
   Company_findAll_filter f = Inl (BadRequestError
     ''The minimum number of employees cannot be greater than the maximum number of employees'')"
  by (simp add: Company_findAll_filter_def)

lemma Company_findAll_filter_spec:
  "\<not> (truthy_num (minEmployees f) \<and> truthy_num (maxEmployees f)
     \<and> js_gt (minEmployees f) (maxEmployees f)) \<Longrightarrow>
   Company_findAll_filter f = Inr (spec_filter_clause company_columns (company_spec f))"
  unfolding Company_findAll_filter_def spec_filter_clause_def spec_predicates_def
    company_columns_def company_spec_def spec_where_def js_slice_0_neg5_def Let_def
  by (simp add: decimal_1 decimal_2 decimal_3)

lemma Job_findAll_filter_spec:
  "Job_findAll_filter f = spec_filter_clause job_columns (job_spec f)"
  unfolding Job_findAll_filter_def spec_filter_clause_def spec_predicates_def
    job_columns_def job_spec_def spec_where_def js_slice_0_neg5_def Let_def
  by (simp add: decimal_1 decimal_2 decimal_3)

lemma length_spec_fragments: "length (spec_fragments n ps) = length ps"
  by (induction n ps rule: spec_fragments.induct) simp_all

lemma spec_param_alignment:
  "j < length ps \<Longrightarrow> ps ! j = Param pre v post \<Longrightarrow>
   spec_fragments n ps ! j
     = pre @ ''$'' @ decimal (n + length (spec_values (take j ps)) + 1) @ post
   \<and> length (spec_values (take j ps)) < length (spec_values ps)
   \<and> spec_values ps ! length (spec_values (take j ps)) = v"
proof (induction n ps arbitrary: j rule: spec_fragments.induct)
  case (1 n)
  then show ?case by simp
next
  case (2 n pre' v' post' ps)
  show ?case
  proof (cases j)
    case 0
    with "2.prems" show ?thesis by simp
  next
    case (Suc k)
    with "2.prems" have "k < length ps" "ps ! k = Param pre v post" by simp_all
    from "2.IH"[OF this] show ?thesis using Suc by simp
  qed
next
  case (3 n s ps)
  show ?case
  proof (cases j)
    case 0
    with "3.prems" show ?thesis by simp
  next
    case (Suc k)
    with "3.prems" have "k < length ps" "ps ! k = Param pre v post" by simp_all
    from "3.IH"[OF this] show ?thesis using Suc by simp
  qed
qed

lemma spec_literal_verbatim:
  "j < length ps \<Longrightarrow> ps ! j = Literal s \<Longrightarrow> spec_fragments n ps ! j = s"
proof (induction n ps arbitrary: j rule: spec_fragments.induct)
  case (1 n)
  then show ?case by simp
next
  case (2 n pre' v' post' ps)
  then show ?case by (cases j) simp_all
next
  case (3 n s' ps)
  then show ?case by (cases j) simp_all
qed

text \<open>
  C4. The claim does not hold of the code. With the lower bound 5 and the upper bound 0
  both bounds are supplied and the lower one is greater, so \<^verbatim>\<open>Company.findAll\<close> should
  throw \<^verbatim>\<open>BadRequestError\<close>. The guard tests the bounds for truthiness, the zero is taken
  for a missing bound, nothing is thrown, and the query is sent with the lower bound alone.
  The bounds 10 and 5 are rejected, with no statement sent.
\<close>

theorem range_check_zero_bound:
  "Company_findAll_filter \<lparr>name = None, minEmployees = Some 5, maxEmployees = Some 0\<rparr>
     = Inr (''WHERE num_employees >= $1'', [JNum 5])
   \<and> Company_findAll (answer_with []) \<lparr>name = None, minEmployees = Some 5, maxEmployees = Some 0\<rparr>
        \<lparr>store = (), trace = []\<rparr>
     = (Inr [],
        \<lparr>store = (),
         trace = [(''SELECT handle, name, description, num_employees AS \"numEmployees\", ''
                    @ ''logo_url AS \"logoUrl\" FROM companies WHERE num_employees >= $1''
                    @ '' ORDER BY name'', [JNum 5])]\<rparr>)
   \<and> Company_findAll (answer_with []) \<lparr>name = None, minEmployees = Some 10, maxEmployees = Some 5\<rparr>
        \<lparr>store = (), trace = []\<rparr>
     = (Inl (BadRequestError
          ''The minimum number of employees cannot be greater than the maximum number of employees''),
        \<lparr>store = (), trace = []\<rparr>)"
  by (simp add: Company_findAll_def Company_findAll_sql_def Company_findAll_filter_def js_gt_def
        js_slice_0_neg5_def db_query_def answer_with_def decimal_1)

text \<open>
  C5. Each assembler of the code is the assembler of the specification at its own columns
  and filter spec: the active filters in the order text match, lower bound, upper bound,
  presence flag, placeholders numbered by one running counter in that order, the fragments
  joined with \<^verbatim>\<open> AND \<close> after \<^verbatim>\<open>WHERE \<close>, nothing after the last fragment. A text match
  \<^verbatim>\<open>a\<close> with a lower bound 1 gives two fragments, the placeholders 1 and 2 and the
  values \<^verbatim>\<open>%a%\<close> and 1, in both assemblers.
\<close>

theorem filter_order:
  "Company_findAll_filter f =
     (if truthy_num (minEmployees f) \<and> truthy_num (maxEmployees f)
         \<and> js_gt (minEmployees f) (maxEmployees f)
      then Inl (BadRequestError
        ''The minimum number of employees cannot be greater than the maximum number of employees'')
      else Inr (spec_filter_clause company_columns (company_spec f)))
   \<and> Job_findAll_filter g = spec_filter_clause job_columns (job_spec g)
   \<and> Company_findAll_filter \<lparr>name = Some ''a'', minEmployees = Some 1, maxEmployees = None\<rparr>
       = Inr (''WHERE LOWER(name) LIKE LOWER($1) AND num_employees >= $2'',
              [JStr ''%a%'', JNum 1])
   \<and> Job_findAll_filter \<lparr>title = Some ''a'', minSalary = Some 1, hasEquity = None\<rparr>
       = (''WHERE LOWER(title) LIKE LOWER($1) AND salary >= $2'', [JStr ''%a%'', JNum 1])"
proof -
  have "Company_findAll_filter \<lparr>name = Some ''a'', minEmployees = Some 1, maxEmployees = None\<rparr>
       = Inr (''WHERE LOWER(name) LIKE LOWER($1) AND num_employees >= $2'',
              [JStr ''%a%'', JNum 1])"
    by (simp add: Company_findAll_filter_def js_gt_def js_slice_0_neg5_def decimal_1 decimal_2)
  moreover have "Job_findAll_filter \<lparr>title = Some ''a'', minSalary = Some 1, hasEquity = None\<rparr>
       = (''WHERE LOWER(title) LIKE LOWER($1) AND salary >= $2'', [JStr ''%a%'', JNum 1])"
    by (simp add: Job_findAll_filter_def js_slice_0_neg5_def decimal_1 decimal_2)
  ultimately show ?thesis
    using Company_findAll_filter_error[of f] Company_findAll_filter_spec[of f]
      Job_findAll_filter_spec[of g]
    by (simp del: truthy_None truthy_Some)
qed

theorem filter_order_witness:
  "Company_findAll_filter \<lparr>name = Some ''net'', minEmployees = Some 2, maxEmployees = Some 9\<rparr>
     = Inr (''WHERE LOWER(name) LIKE LOWER($1) AND num_employees >= $2 AND num_employees <= $3'',
            [JStr ''%net%'', JNum 2, JNum 9])
   \<and> Job_findAll_filter \<lparr>title = Some ''j'', minSalary = Some 200, hasEquity = Some True\<rparr>
     = (''WHERE LOWER(title) LIKE LOWER($1) AND salary >= $2 AND equity > 0'',
        [JStr ''%j%'', JNum 200])"
  using filter_order
    [of "\<lparr>name = Some ''net'', minEmployees = Some 2, maxEmployees = Some 9\<rparr>"
        "\<lparr>title = Some ''j'', minSalary = Some 200, hasEquity = Some True\<rparr>"]
  by (simp add: spec_filter_clause_def spec_predicates_def spec_where_def company_columns_def
        company_spec_def job_columns_def job_spec_def js_gt_def decimal_1 decimal_2 decimal_3)

text \<open>
  C6. In \<^verbatim>\<open>Job.findAll\<close> the clause and the values are those of the specification's
  rendering of the active predicates. Every parameterized predicate is rendered with the
  placeholder whose number is one more than the count of parameterized predicates before
  it, and the value at that count is its value. With \<^verbatim>\<open>hasEquity\<close> true the last
  fragment is the literal \<^verbatim>\<open>equity > 0\<close>, the values are the same as without the flag, and
  the clause is the one without the flag extended by that literal.
\<close>

theorem hasEquity_literal_alignment:
  "(let ps = spec_predicates job_columns (job_spec f);
        (clause, values) = Job_findAll_filter f
    in clause = spec_where (spec_fragments 0 ps) \<and> values = spec_values ps
       \<and> (\<forall>j < length ps. \<forall>pre v post. ps ! j = Param pre v post \<longrightarrow>
             (let i = length (spec_values (take j ps))
              in spec_fragments 0 ps ! j = pre @ ''$'' @ decimal (i + 1) @ post
                 \<and> i < length values \<and> values ! i = v))
       \<and> (hasEquity f = Some True \<longrightarrow>
             last ps = Literal ''equity > 0''
           \<and> last (spec_fragments 0 ps) = ''equity > 0''
           \<and> values = snd (Job_findAll_filter (f\<lparr>hasEquity := None\<rparr>))
           \<and> clause =
               (if fst (Job_findAll_filter (f\<lparr>hasEquity := None\<rparr>)) = [] then ''WHERE equity > 0''
                else fst (Job_findAll_filter (f\<lparr>hasEquity := None\<rparr>)) @ '' AND equity > 0'')))"
proof -
  define ps where "ps = spec_predicates job_columns (job_spec f)"
  have run: "Job_findAll_filter f = (spec_where (spec_fragments 0 ps), spec_values ps)"
    by (simp add: Job_findAll_filter_spec spec_filter_clause_def ps_def)
  have aligned: "\<forall>j < length ps. \<forall>pre v post. ps ! j = Param pre v post \<longrightarrow>
              spec_fragments 0 ps ! j
                = pre @ ''$'' @ decimal (length (spec_values (take j ps)) + 1) @ post
              \<and> length (spec_values (take j ps)) < length (spec_values ps)
              \<and> spec_values ps ! length (spec_values (take j ps)) = v"
    using spec_param_alignment[of _ ps _ _ _ 0] by simp
  have flag: "hasEquity f = Some True \<longrightarrow>
             last ps = Literal ''equity > 0''
           \<and> last (spec_fragments 0 ps) = ''equity > 0''
           \<and> spec_values ps = snd (Job_findAll_filter (f\<lparr>hasEquity := None\<rparr>))
           \<and> spec_where (spec_fragments 0 ps) =
               (if fst (Job_findAll_filter (f\<lparr>hasEquity := None\<rparr>)) = [] then ''WHERE equity > 0''
                else fst (Job_findAll_filter (f\<lparr>hasEquity := None\<rparr>)) @ '' AND equity > 0'')"
    unfolding ps_def Job_findAll_filter_spec spec_filter_clause_def spec_predicates_def
      job_columns_def job_spec_def spec_where_def
    by (simp add: decimal_1 decimal_2)
  from aligned flag show ?thesis
    unfolding Let_def ps_def[symmetric] run prod.case by blast
qed

theorem hasEquity_literal_alignment_witness:
  "Job_findAll_filter \<lparr>title = None, minSalary = Some 200, hasEquity = Some True\<rparr>
     = (''WHERE salary >= $1 AND equity > 0'', [JNum 200])
   \<and> Job_findAll_filter \<lparr>title = None, minSalary = Some 200, hasEquity = None\<rparr>
     = (''WHERE salary >= $1'', [JNum 200])"
  using hasEquity_literal_alignment
    [of "\<lparr>title = None, minSalary = Some 200, hasEquity = Some True\<rparr>"]
  by (simp add: Let_def spec_predicates_def spec_where_def job_columns_def job_spec_def
        Job_findAll_filter_def js_slice_0_neg5_def decimal_1 split: prod.splits)

text \<open>
  C9. A falsy filter value is treated as an absent one: the empty string, the bound 0 and
  the flag \<^verbatim>\<open>false\<close> give the same result as no value, in both assemblers. When a bound
  of \<^verbatim>\<open>Company.findAll\<close> is 0 the check does not fire: with the bounds 0 and -1, or 7 and
  0, nothing is thrown and no predicate is emitted for the zero bound.
\<close>

theorem falsy_filters_absent:
  "Company_findAll_filter (f\<lparr>name := Some []\<rparr>) = Company_findAll_filter (f\<lparr>name := None\<rparr>)
   \<and> Company_findAll_filter (f\<lparr>minEmployees := Some 0\<rparr>)
       = Company_findAll_filter (f\<lparr>minEmployees := None\<rparr>)
   \<and> Company_findAll_filter (f\<lparr>maxEmployees := Some 0\<rparr>)
       = Company_findAll_filter (f\<lparr>maxEmployees := None\<rparr>)
   \<and> Job_findAll_filter (g\<lparr>title := Some []\<rparr>) = Job_findAll_filter (g\<lparr>title := None\<rparr>)
   \<and> Job_findAll_filter (g\<lparr>minSalary := Some 0\<rparr>) = Job_findAll_filter (g\<lparr>minSalary := None\<rparr>)
   \<and> Job_findAll_filter (g\<lparr>hasEquity := Some False\<rparr>)
       = Job_findAll_filter (g\<lparr>hasEquity := None\<rparr>)
   \<and> (minEmployees f = Some 0 \<or> maxEmployees f = Some 0 \<longrightarrow>
        Company_findAll_filter f = Inr (spec_filter_clause company_columns (company_spec f)))
   \<and> Company_findAll_filter \<lparr>name = None, minEmployees = Some 0, maxEmployees = Some (- 1)\<rparr>
       = Inr (''WHERE num_employees <= $1'', [JNum (- 1)])
   \<and> Company_findAll_filter \<lparr>name = None, minEmployees = Some 7, maxEmployees = Some 0\<rparr>
       = Inr (''WHERE num_employees >= $1'', [JNum 7])
   \<and> Company_findAll_filter \<lparr>name = Some [], minEmployees = Some 0, maxEmployees = Some 0\<rparr>
       = Inr ([], [])
   \<and> Job_findAll_filter \<lparr>title = Some [], minSalary = Some 0, hasEquity = Some False\<rparr>
       = ([], [])"
proof -
  have company: "Company_findAll_filter (f\<lparr>name := Some []\<rparr>) = Company_findAll_filter (f\<lparr>name := None\<rparr>)"
    "Company_findAll_filter (f\<lparr>minEmployees := Some 0\<rparr>)
       = Company_findAll_filter (f\<lparr>minEmployees := None\<rparr>)"
    "Company_findAll_filter (f\<lparr>maxEmployees := Some 0\<rparr>)
       = Company_findAll_filter (f\<lparr>maxEmployees := None\<rparr>)"
    by (simp_all add: Company_findAll_filter_def js_gt_def)
  have job: "Job_findAll_filter (g\<lparr>title := Some []\<rparr>) = Job_findAll_filter (g\<lparr>title := None\<rparr>)"
    "Job_findAll_filter (g\<lparr>minSalary := Some 0\<rparr>) = Job_findAll_filter (g\<lparr>minSalary := None\<rparr>)"
    "Job_findAll_filter (g\<lparr>hasEquity := Some False\<rparr>)
       = Job_findAll_filter (g\<lparr>hasEquity := None\<rparr>)"
    by (simp_all add: Job_findAll_filter_def)
  have skipped: "minEmployees f = Some 0 \<or> maxEmployees f = Some 0 \<longrightarrow>
        Company_findAll_filter f = Inr (spec_filter_clause company_columns (company_spec f))"
    using Company_findAll_filter_spec[of f] by auto
  have runs: "Company_findAll_filter \<lparr>name = None, minEmployees = Some 0, maxEmployees = Some (- 1)\<rparr>
       = Inr (''WHERE num_employees <= $1'', [JNum (- 1)])"
    "Company_findAll_filter \<lparr>name = None, minEmployees = Some 7, maxEmployees = Some 0\<rparr>
       = Inr (''WHERE num_employees >= $1'', [JNum 7])"
    "Company_findAll_filter \<lparr>name = Some [], minEmployees = Some 0, maxEmployees = Some 0\<rparr>
       = Inr ([], [])"
    "Job_findAll_filter \<lparr>title = Some [], minSalary = Some 0, hasEquity = Some False\<rparr>
       = ([], [])"
    by (simp_all add: Company_findAll_filter_def Job_findAll_filter_def js_gt_def
          js_slice_0_neg5_def decimal_1)
  from company job skipped runs show ?thesis by (simp only:) 
qed

theorem falsy_filters_absent_witness:
  "Company_findAll_filter \<lparr>name = Some ''a'', minEmployees = Some 0, maxEmployees = Some (- 3)\<rparr>
     = Inr (''WHERE LOWER(name) LIKE LOWER($1) AND num_employees <= $2'',
            [JStr ''%a%'', JNum (- 3)])"
proof -
  have zero: "minEmployees \<lparr>name = Some ''a'', minEmployees = Some 0, maxEmployees = Some (- 3)\<rparr>
      = Some 0"
    by simp
  with falsy_filters_absent
    [of "\<lparr>name = Some ''a'', minEmployees = Some 0, maxEmployees = Some (- 3)\<rparr>"
        "\<lparr>title = None, minSalary = None, hasEquity = None\<rparr>"]
  have "Company_findAll_filter
      \<lparr>name = Some ''a'', minEmployees = Some 0, maxEmployees = Some (- 3)\<rparr>
    = Inr (spec_filter_clause company_columns (company_spec
        \<lparr>name = Some ''a'', minEmployees = Some 0, maxEmployees = Some (- 3)\<rparr>))"
    by blast
  then show ?thesis
    by (simp add: spec_filter_clause_def spec_predicates_def spec_where_def company_columns_def
        company_spec_def decimal_1 decimal_2)
qed

section \<open>Properties of update and get\<close>

lemma Company_update_run:
  assumes "data \<noteq> []"
  shows "Company_update q handle data w =
     (let sql = ''UPDATE companies SET ''
            @ js_join '', '' (sqlForPartialUpdate_cols (map fst data)
                [''numEmployees'' \<mapsto> ''num_employees'', ''logoUrl'' \<mapsto> ''logo_url''])
            @ '' WHERE handle = $'' @ decimal (length data + 1)
            @ '' RETURNING handle, name, description, ''
            @ ''num_employees AS \"numEmployees\", logo_url AS \"logoUrl\"'';
          params = map snd data @ [JStr handle]
      in (case fst (q sql params (store w)) of
            Inl e \<Rightarrow> Inl e
          | Inr [] \<Rightarrow> Inl (NotFoundError (''No company: '' @ handle))
          | Inr (company # _) \<Rightarrow> Inr company,
          \<lparr>store = snd (q sql params (store w)), trace = trace w @ [(sql, params)]\<rparr>))"
  using assms
  by (simp add: Company_update_def Company_update_sql_def sqlForPartialUpdate_nonempty
        db_query_def Let_def split: prod.splits sum.splits list.splits)

lemma Job_update_run:
  assumes "data \<noteq> []"
  shows "Job_update q id' data w =
     (let sql = ''UPDATE jobs SET ''
            @ js_join '', '' (sqlForPartialUpdate_cols (map fst data) Map.empty)
            @ '' WHERE id = $'' @ decimal (length data + 1)
            @ '' RETURNING id, title, salary, equity, company_handle AS \"companyHandle\"'';
          params = map snd data @ [JNum id']
      in (case fst (q sql params (store w)) of
            Inl e \<Rightarrow> Inl e
          | Inr [] \<Rightarrow> Inl (NotFoundError (''No job: '' @ js_String id'))
          | Inr (job # _) \<Rightarrow> Inr job,
          \<lparr>store = snd (q sql params (store w)), trace = trace w @ [(sql, params)]\<rparr>))"
  using assms
  by (simp add: Job_update_def Job_update_sql_def sqlForPartialUpdate_nonempty
        db_query_def Let_def split: prod.splits sum.splits list.splits)

text \<open>
  C7. With no field, \<^verbatim>\<open>update\<close> throws the \<^verbatim>\<open>BadRequestError\<close> of
  \<^verbatim>\<open>sqlForPartialUpdate\<close> and the world is unchanged: no statement was sent. With at least
  one field, the clause and the values are those of \<^verbatim>\<open>sqlForPartialUpdate\<close> at the model's
  own map; exactly one statement is sent, the \<^verbatim>\<open>UPDATE\<close> that sets that clause and whose
  \<^verbatim>\<open>WHERE\<close> condition compares the identifier column with the placeholder numbered one
  more than the number of fields, with the identifier appended to the values as the last
  one; the result is the first returned row, \<^verbatim>\<open>NotFoundError\<close> when no row is returned,
  or the error of the storage. This holds for companies and for jobs.
\<close>

theorem update_contract:
  "Company_update q handle [] w = (Inl (BadRequestError ''No data''), w)
   \<and> Job_update q' id' [] w' = (Inl (BadRequestError ''No data''), w')
   \<and> (data \<noteq> [] \<longrightarrow>
        (\<exists>r. sqlForPartialUpdate data
                [''numEmployees'' \<mapsto> ''num_employees'', ''logoUrl'' \<mapsto> ''logo_url''] = Inr r
           \<and> vals r = map snd data
           \<and> (let sql = ''UPDATE companies SET '' @ setCols r
                      @ '' WHERE handle = $'' @ decimal (length data + 1)
                      @ '' RETURNING handle, name, description, ''
                      @ ''num_employees AS \"numEmployees\", logo_url AS \"logoUrl\"'';
                    params = vals r @ [JStr handle]
                in Company_update q handle data w =
                     (case fst (q sql params (store w)) of
                        Inl e \<Rightarrow> Inl e
                      | Inr [] \<Rightarrow> Inl (NotFoundError (''No company: '' @ handle))
                      | Inr (company # _) \<Rightarrow> Inr company,
                      \<lparr>store = snd (q sql params (store w)),
                       trace = trace w @ [(sql, params)]\<rparr>)))
      \<and> (\<exists>r. sqlForPartialUpdate data Map.empty = Inr r
           \<and> vals r = map snd data
           \<and> (let sql = ''UPDATE jobs SET '' @ setCols r
                      @ '' WHERE id = $'' @ decimal (length data + 1)
                      @ '' RETURNING id, title, salary, equity, ''
                      @ ''company_handle AS \"companyHandle\"'';
                    params = vals r @ [JNum id']
                in Job_update q' id' data w' =
                     (case fst (q' sql params (store w')) of
                        Inl e \<Rightarrow> Inl e
                      | Inr [] \<Rightarrow> Inl (NotFoundError (''No job: '' @ js_String id'))
                      | Inr (job # _) \<Rightarrow> Inr job,
                      \<lparr>store = snd (q' sql params (store w')),
                       trace = trace w' @ [(sql, params)]\<rparr>))))"
proof -
  have empty: "Company_update q handle [] w = (Inl (BadRequestError ''No data''), w)"
    "Job_update q' id' [] w' = (Inl (BadRequestError ''No data''), w')"
    by (simp_all add: Company_update_def Job_update_def sqlForPartialUpdate_empty)
  have run: ?thesis if ne: "data \<noteq> []"
    using empty ne Company_update_run[OF ne, of q handle w] Job_update_run[OF ne, of q' id' w']
    by (simp add: sqlForPartialUpdate_nonempty Let_def)
  show ?thesis
  proof (cases "data = []")
    case True
    with empty show ?thesis by simp
  next
    case False
    then show ?thesis by (rule run)
  qed
qed

theorem update_contract_witness:
  "Job_update (answer_with [job_j0 ''c1'']) 1 [(''title'', JStr ''New''), (''salary'', JNum 999)]
       \<lparr>store = (), trace = []\<rparr>
     = (Inr (job_j0 ''c1''),
        \<lparr>store = (),
         trace = [(''UPDATE jobs SET \"title\"=$1, \"salary\"=$2 WHERE id = $3''
                     @ '' RETURNING id, title, salary, equity, company_handle AS \"companyHandle\"'',
                   [JStr ''New'', JNum 999, JNum 1])]\<rparr>)
   \<and> Company_update (answer_with []) ''nope'' [(''numEmployees'', JNum 3)]
       \<lparr>store = (), trace = []\<rparr>
     = (Inl (NotFoundError ''No company: nope''),
        \<lparr>store = (),
         trace = [(''UPDATE companies SET \"num_employees\"=$1 WHERE handle = $2''
                     @ '' RETURNING handle, name, description, ''
                     @ ''num_employees AS \"numEmployees\", logo_url AS \"logoUrl\"'',
                   [JNum 3, JStr ''nope''])]\<rparr>)"
proof -
  show ?thesis
    using update_contract
      [of "answer_with []" "''nope''" "\<lparr>store = (), trace = []\<rparr>"
          "answer_with [job_j0 ''c1'']" 1 "\<lparr>store = (), trace = []\<rparr>"
          "[(''numEmployees'', JNum 3)]"]
      update_contract
      [of "answer_with []" "''nope''" "\<lparr>store = (), trace = []\<rparr>"
          "answer_with [job_j0 ''c1'']" 1 "\<lparr>store = (), trace = []\<rparr>"
          "[(''title'', JStr ''New''), (''salary'', JNum 999)]"]
    by (simp add: sqlForPartialUpdate_nonempty sqlForPartialUpdate_cols_def enumerate_eq_zip
          js_or_def js_member_def Object_prototype_def answer_with_def Let_def
          decimal_1 decimal_2 decimal_3)
qed

lemma Company_get_not_found:
  "q Company_select_sql [JStr handle] (store w) = (Inr [], st) \<Longrightarrow>
   Company_get q handle w =
     (Inl (NotFoundError (''No company: '' @ handle)),
      \<lparr>store = st, trace = trace w @ [(Company_select_sql, [JStr handle])]\<rparr>)"
  by (simp add: Company_get_def db_query_def)

lemma Company_get_found:
  "q Company_select_sql [JStr handle] (store w) = (Inr (company # rest), st) \<Longrightarrow>
   q Company_jobs_sql [JStr handle] st = (Inr jobsRes, st') \<Longrightarrow>
   Company_get q handle w =
     (Inr (AList.update ''jobs'' (JArr (map JObj jobsRes)) company),
      \<lparr>store = st',
       trace = trace w @ [(Company_select_sql, [JStr handle]), (Company_jobs_sql, [JStr handle])]\<rparr>)"
  by (simp add: Company_get_def db_query_def)

lemma Job_get_not_found:
  "q Job_select_sql [JNum id'] (store w) = (Inr [], st) \<Longrightarrow>
   Job_get q id' w =
     (Inl (NotFoundError (''No job: '' @ js_String id')),
      \<lparr>store = st, trace = trace w @ [(Job_select_sql, [JNum id'])]\<rparr>)"
  by (simp add: Job_get_def db_query_def)

lemma Job_get_found:
  "q Job_select_sql [JNum id'] (store w) = (Inr (job # rest), st) \<Longrightarrow>
   q Company_select_sql [js_get job ''companyHandle''] st = (Inr (c # crest), st') \<Longrightarrow>
   Job_get q id' w =
     (Inr (AList.update ''companyHandle'' (js_get c ''handle'') job),
      \<lparr>store = st',
       trace = trace w @ [(Job_select_sql, [JNum id']),
                          (Company_select_sql, [js_get job ''companyHandle''])]\<rparr>)"
  by (simp add: Job_get_def db_query_def)

lemma Job_get_no_company:
  "q Job_select_sql [JNum id'] (store w) = (Inr (job # rest), st) \<Longrightarrow>
   q Company_select_sql [js_get job ''companyHandle''] st = (Inr [], st') \<Longrightarrow>
   Job_get q id' w =
     (Inl (TypeError ''Cannot read properties of undefined''),
      \<lparr>store = st',
       trace = trace w @ [(Job_select_sql, [JNum id']),
                          (Company_select_sql, [js_get job ''companyHandle''])]\<rparr>)"
  by (simp add: Job_get_def db_query_def)

lemma example_sql_distinct:
  "Job_select_sql \<noteq> Company_select_sql" "Company_jobs_sql \<noteq> Company_select_sql"
  "Company_jobs_sql \<noteq> Job_select_sql"
  by (simp_all add: Job_select_sql_def Company_select_sql_def Company_jobs_sql_def)

text \<open>
  C8, as stated, fails for jobs: \<^verbatim>\<open>Job.get\<close> on a store that holds the job and its
  company returns the job row as it was read, with no nested collection attached; the
  company lookup only overwrites \<^verbatim>\<open>companyHandle\<close> with the company's handle.
\<close>

theorem get_nested_collection_counterexample:
  "Job_get example_q 1 \<lparr>store = ([company_c1], [job_j0 ''c1'']), trace = []\<rparr>
     = (Inr (job_j0 ''c1''),
        \<lparr>store = ([company_c1], [job_j0 ''c1'']),
         trace = [(Job_select_sql, [JNum 1]), (Company_select_sql, [JStr ''c1''])]\<rparr>)
   \<and> \<not> has_nested_collection (job_j0 ''c1'')"
  by (simp add: Job_get_def db_query_def example_q_def example_sql_distinct js_get_def
        job_j0_def company_c1_def has_nested_collection_def)

text \<open>
  C8, amended. When the storage answers the lookups: \<^verbatim>\<open>Company.get\<close> throws
  \<^verbatim>\<open>NotFoundError\<close> after one lookup when no row matches, and otherwise returns, after
  exactly two lookups, the company record with the array of its job rows attached as
  \<^verbatim>\<open>jobs\<close>. \<^verbatim>\<open>Job.get\<close> throws \<^verbatim>\<open>NotFoundError\<close> after one lookup when no row
  matches; when the job row exists and the company lookup returns a row it returns, after
  exactly two lookups, the job record with \<^verbatim>\<open>companyHandle\<close> set to the handle of that
  company row.
\<close>

theorem get_contract:
  "(q Company_select_sql [JStr handle] (store w) = (Inr [], st) \<longrightarrow>
      Company_get q handle w =
        (Inl (NotFoundError (''No company: '' @ handle)),
         \<lparr>store = st, trace = trace w @ [(Company_select_sql, [JStr handle])]\<rparr>))
   \<and> (q Company_select_sql [JStr handle] (store w) = (Inr (company # rest), st)
        \<and> q Company_jobs_sql [JStr handle] st = (Inr jobsRes, st') \<longrightarrow>
      Company_get q handle w =
        (Inr (AList.update ''jobs'' (JArr (map JObj jobsRes)) company),
         \<lparr>store = st',
          trace = trace w @ [(Company_select_sql, [JStr handle]),
                             (Company_jobs_sql, [JStr handle])]\<rparr>)
      \<and> js_get (AList.update ''jobs'' (JArr (map JObj jobsRes)) company) ''jobs''
          = JArr (map JObj jobsRes)
      \<and> has_nested_collection (AList.update ''jobs'' (JArr (map JObj jobsRes)) company))
   \<and> (q' Job_select_sql [JNum id'] (store w') = (Inr [], t) \<longrightarrow>
      Job_get q' id' w' =
        (Inl (NotFoundError (''No job: '' @ js_String id')),
         \<lparr>store = t, trace = trace w' @ [(Job_select_sql, [JNum id'])]\<rparr>))
   \<and> (q' Job_select_sql [JNum id'] (store w') = (Inr (job # jrest), t)
        \<and> q' Company_select_sql [js_get job ''companyHandle''] t = (Inr (c # crest), t') \<longrightarrow>
      Job_get q' id' w' =
        (Inr (AList.update ''companyHandle'' (js_get c ''handle'') job),
         \<lparr>store = t',
          trace = trace w' @ [(Job_select_sql, [JNum id']),
                              (Company_select_sql, [js_get job ''companyHandle''])]\<rparr>))"
proof -
  have attached: "js_get (AList.update ''jobs'' (JArr (map JObj jobsRes)) company) ''jobs''
          = JArr (map JObj jobsRes)"
    by (simp add: js_get_def update_conv')
  have "(''jobs'', JArr (map JObj jobsRes))
      \<in> set (AList.update ''jobs'' (JArr (map JObj jobsRes)) company)"
    by (rule map_of_SomeD) (simp add: update_conv')
  then have nested: "has_nested_collection (AList.update ''jobs'' (JArr (map JObj jobsRes)) company)"
    unfolding has_nested_collection_def list_ex_iff by force
  show ?thesis
    using attached nested
    by (simp add: Company_get_not_found Company_get_found Job_get_not_found Job_get_found)
qed

theorem get_contract_witness:
  "Company_get example_q ''c1'' \<lparr>store = ([company_c1], [job_j0 ''c1'']), trace = []\<rparr>
     = (Inr (company_c1 @ [(''jobs'', JArr [JObj [(''id'', JNum 1), (''title'', JStr ''j0''),
                 (''salary'', JNum 1), (''equity'', JStr ''0'')]])]),
        \<lparr>store = ([company_c1], [job_j0 ''c1'']),
         trace = [(Company_select_sql, [JStr ''c1'']), (Company_jobs_sql, [JStr ''c1''])]\<rparr>)
   \<and> Company_get example_q ''zz'' \<lparr>store = ([company_c1], [job_j0 ''c1'']), trace = []\<rparr>
     = (Inl (NotFoundError ''No company: zz''),
        \<lparr>store = ([company_c1], [job_j0 ''c1'']),
         trace = [(Company_select_sql, [JStr ''zz''])]\<rparr>)
   \<and> Job_get example_q 0 \<lparr>store = ([company_c1], [job_j0 ''c1'']), trace = []\<rparr>
     = (Inl (NotFoundError ''No job: 0''),
        \<lparr>store = ([company_c1], [job_j0 ''c1'']), trace = [(Job_select_sql, [JNum 0])]\<rparr>)
   \<and> Job_get example_q 1 \<lparr>store = ([company_c1], [job_j0 ''c1'']), trace = []\<rparr>
     = (Inr (job_j0 ''c1''),
        \<lparr>store = ([company_c1], [job_j0 ''c1'']),
         trace = [(Job_select_sql, [JNum 1]), (Company_select_sql, [JStr ''c1''])]\<rparr>)"
proof -
  let ?st = "([company_c1], [job_j0 ''c1''])"
  let ?w = "\<lparr>store = ?st, trace = []\<rparr>"
  let ?jobs = "[[(''id'', JNum 1), (''title'', JStr ''j0''), (''salary'', JNum 1),
                 (''equity'', JStr ''0'')]]"
  have c_hit: "example_q Company_select_sql [JStr ''c1''] (store ?w) = (Inr (company_c1 # []), ?st)"
    and c_miss: "example_q Company_select_sql [JStr ''zz''] (store ?w) = (Inr [], ?st)"
    and c_jobs: "example_q Company_jobs_sql [JStr ''c1''] ?st = (Inr ?jobs, ?st)"
    and j_hit: "example_q Job_select_sql [JNum 1] (store ?w) = (Inr (job_j0 ''c1'' # []), ?st)"
    and j_miss: "example_q Job_select_sql [JNum 0] (store ?w) = (Inr [], ?st)"
    and j_company: "example_q Company_select_sql [js_get (job_j0 ''c1'') ''companyHandle''] ?st
        = (Inr (company_c1 # []), ?st)"
    by (simp_all add: example_q_def example_sql_distinct js_get_def job_j0_def company_c1_def)
  have upd: "AList.update ''jobs'' (JArr (map JObj ?jobs)) company_c1
      = company_c1 @ [(''jobs'', JArr (map JObj ?jobs))]"
    "AList.update ''companyHandle'' (js_get company_c1 ''handle'') (job_j0 ''c1'') = job_j0 ''c1''"
    by (simp_all add: company_c1_def job_j0_def js_get_def)
  have zero: "js_String 0 = ''0''"
    by (simp add: js_String_def decimal.simps digit_char_def)
  from get_contract
    [of example_q "''c1''" ?w ?st company_c1 "[]" ?jobs ?st example_q 1 ?w ?st
        "job_j0 ''c1''" "[]" company_c1 "[]"]
    c_hit c_jobs j_hit j_company
  have hits: "Company_get example_q ''c1'' ?w
      = (Inr (AList.update ''jobs'' (JArr (map JObj ?jobs)) company_c1),
         \<lparr>store = ?st,
          trace = trace ?w @ [(Company_select_sql, [JStr ''c1'']), (Company_jobs_sql, [JStr ''c1''])]\<rparr>)"
    "Job_get example_q 1 ?w
      = (Inr (AList.update ''companyHandle'' (js_get company_c1 ''handle'') (job_j0 ''c1'')),
         \<lparr>store = ?st,
          trace = trace ?w @ [(Job_select_sql, [JNum 1]),
                              (Company_select_sql, [js_get (job_j0 ''c1'') ''companyHandle''])]\<rparr>)"
    by blast+
  from get_contract
    [of example_q "''zz''" ?w ?st company_c1 "[]" ?jobs ?st example_q 0 ?w ?st
        "job_j0 ''c1''" "[]" company_c1 "[]"]
    c_miss j_miss
  have misses: "Company_get example_q ''zz'' ?w
      = (Inl (NotFoundError (''No company: '' @ ''zz'')),
         \<lparr>store = ?st, trace = trace ?w @ [(Company_select_sql, [JStr ''zz''])]\<rparr>)"
    "Job_get example_q 0 ?w
      = (Inl (NotFoundError (''No job: '' @ js_String 0)),
         \<lparr>store = ?st, trace = trace ?w @ [(Job_select_sql, [JNum 0])]\<rparr>)"
    by blast+
  have handle: "js_get (job_j0 ''c1'') ''companyHandle'' = JStr ''c1''"
    by (simp add: js_get_def job_j0_def)
  show ?thesis
    unfolding hits misses upd zero handle by simp
qed

text \<open>
  C10. When the job row exists, \<^verbatim>\<open>Job.get\<close> sends the company lookup and reads the first
  row of its result without a guard: if that result is empty the operation throws a
  \<^verbatim>\<open>TypeError\<close>, if it is not empty the operation returns a record; in neither case does
  it throw \<^verbatim>\<open>NotFoundError\<close>.
\<close>

theorem Job_get_unguarded:
  assumes "q Job_select_sql [JNum id'] (store w) = (Inr (job # rest), st)"
    and "q Company_select_sql [js_get job ''companyHandle''] st = (Inr companyRes, st')"
  shows "(companyRes = [] \<longrightarrow>
            fst (Job_get q id' w) = Inl (TypeError ''Cannot read properties of undefined''))
       \<and> (companyRes \<noteq> [] \<longrightarrow>
            fst (Job_get q id' w)
              = Inr (AList.update ''companyHandle'' (js_get (hd companyRes) ''handle'') job))
       \<and> (\<forall>m. fst (Job_get q id' w) \<noteq> Inl (NotFoundError m))
       \<and> trace (snd (Job_get q id' w))
           = trace w @ [(Job_select_sql, [JNum id']),
                        (Company_select_sql, [js_get job ''companyHandle''])]"
proof (cases companyRes)
  case Nil
  with assms show ?thesis by (simp add: Job_get_no_company)
next
  case (Cons c crest)
  with assms show ?thesis by (simp add: Job_get_found)
qed

theorem Job_get_unguarded_witness:
  "fst (Job_get example_q 1 \<lparr>store = ([company_c1], [job_j0 ''gone'']), trace = []\<rparr>)
     = Inl (TypeError ''Cannot read properties of undefined'')
   \<and> trace (snd (Job_get example_q 1 \<lparr>store = ([company_c1], [job_j0 ''gone'']), trace = []\<rparr>))
     = [(Job_select_sql, [JNum 1]), (Company_select_sql, [JStr ''gone''])]"
proof -
  let ?st = "([company_c1], [job_j0 ''gone''])"
  let ?w = "\<lparr>store = ?st, trace = []\<rparr>"
  have first: "example_q Job_select_sql [JNum 1] (store ?w) = (Inr (job_j0 ''gone'' # []), ?st)"
    by (simp add: example_q_def example_sql_distinct js_get_def job_j0_def)
  have second: "example_q Company_select_sql [js_get (job_j0 ''gone'') ''companyHandle''] ?st
      = (Inr [], ?st)"
    by (simp add: example_q_def js_get_def job_j0_def company_c1_def)
  have handle: "js_get (job_j0 ''gone'') ''companyHandle'' = JStr ''gone''"
    by (simp add: js_get_def job_j0_def)
  from Job_get_unguarded[OF first second] show ?thesis
    unfolding handle by simp
qed

end
